theory Spec2Isabelle
  imports Complex_Main "HOL-Library.Char_ord" "HOL-Library.List_Lexorder"
    "HOL-Library.Multiset"
begin

section \<open>Values of the Python program\<close>

text \<open>
  The layer service (\<^verbatim>\<open>deploy/api/app/database.py\<close>, \<^verbatim>\<open>routers/layers.py\<close>) works on the
  values that \<^verbatim>\<open>json.loads\<close> produces.  A Python \<^verbatim>\<open>float\<close> is a finite value or one of
  \<^verbatim>\<open>inf\<close>, \<^verbatim>\<open>-inf\<close>, \<^verbatim>\<open>nan\<close> (\<^verbatim>\<open>json.loads\<close> yields them for \<^verbatim>\<open>1e999\<close>, \<^verbatim>\<open>Infinity\<close>,
  \<^verbatim>\<open>NaN\<close>).  The program only compares numbers, never computes with them, and Python
  compares \<^verbatim>\<open>int\<close> with \<^verbatim>\<open>float\<close> exactly, so a finite float is represented by the real
  number it denotes.
\<close>

datatype pyfloat = Finite real | PosInf | NegInf | NaN

text \<open>
  A dict is an association list; \<^verbatim>\<open>d.get(k)\<close> is \<^const>\<open>map_of\<close>.  In a dict that
  \<^verbatim>\<open>json.loads\<close> built every key occurs once.
\<close>

datatype json =
    JNull
  | JBool bool
  | JInt int
  | JFloat pyfloat
  | JStr string
  | JArr "json list"
  | JObj "(string \<times> json) list"

text \<open>The exceptions the modelled code can raise.\<close>

datatype py_error =
    IndexError
  | KeyError
  | TypeError
  | AttributeError
  | RecursionError
  | OSError
  | UnicodeDecodeError
  | JSONDecodeError
  | HTTPException nat string

text \<open>
  \<^verbatim>\<open>isinstance(v, (int, float))\<close>: \<^verbatim>\<open>bool\<close> is a subclass of \<^verbatim>\<open>int\<close>, so \<^verbatim>\<open>True\<close> and
  \<^verbatim>\<open>False\<close> pass the test and compare as 1 and 0.
\<close>

fun num_val :: "json \<Rightarrow> pyfloat option" where
  "num_val (JBool b) = Some (Finite (if b then 1 else 0))"
| "num_val (JInt i) = Some (Finite (of_int i))"
| "num_val (JFloat f) = Some f"
| "num_val _ = None"

definition is_number :: "json \<Rightarrow> bool" where
  "is_number v = (case num_val v of None \<Rightarrow> False | Some _ \<Rightarrow> True)"

text \<open>IEEE comparison: every comparison with \<^verbatim>\<open>nan\<close> is false.\<close>

fun float_lt :: "pyfloat \<Rightarrow> pyfloat \<Rightarrow> bool" where
  "float_lt (Finite a) (Finite b) = (a < b)"
| "float_lt (Finite a) PosInf = True"
| "float_lt NegInf (Finite b) = True"
| "float_lt NegInf PosInf = True"
| "float_lt _ _ = False"

fun float_le :: "pyfloat \<Rightarrow> pyfloat \<Rightarrow> bool" where
  "float_le (Finite a) (Finite b) = (a \<le> b)"
| "float_le NaN _ = False"
| "float_le _ NaN = False"
| "float_le NegInf _ = True"
| "float_le _ PosInf = True"
| "float_le _ _ = False"

text \<open>\<^verbatim>\<open>a < b\<close> and \<^verbatim>\<open>a <= b\<close> on two numbers.\<close>

definition py_lt :: "json \<Rightarrow> json \<Rightarrow> bool" where
  "py_lt a b = (case (num_val a, num_val b) of
      (Some x, Some y) \<Rightarrow> float_lt x y
    | _ \<Rightarrow> False)"

definition py_le :: "json \<Rightarrow> json \<Rightarrow> bool" where
  "py_le a b = (case (num_val a, num_val b) of
      (Some x, Some y) \<Rightarrow> float_le x y
    | _ \<Rightarrow> False)"

text \<open>
  \<^verbatim>\<open>min(a, b)\<close> keeps \<^verbatim>\<open>a\<close> unless \<^verbatim>\<open>b < a\<close>; \<^verbatim>\<open>max(a, b)\<close> keeps \<^verbatim>\<open>a\<close> unless
  \<^verbatim>\<open>b > a\<close>.
\<close>

definition py_min :: "json \<Rightarrow> json \<Rightarrow> json" where
  "py_min a b = (if py_lt b a then b else a)"

definition py_max :: "json \<Rightarrow> json \<Rightarrow> json" where
  "py_max a b = (if py_lt a b then b else a)"

text \<open>Truth value of an object, as \<^verbatim>\<open>if coords:\<close> and \<^verbatim>\<open>if features:\<close> test it.\<close>

fun truthy :: "json \<Rightarrow> bool" where
  "truthy JNull = False"
| "truthy (JBool b) = b"
| "truthy (JInt i) = (i \<noteq> 0)"
| "truthy (JFloat f) = (f \<noteq> Finite 0)"
| "truthy (JStr s) = (s \<noteq> [])"
| "truthy (JArr xs) = (xs \<noteq> [])"
| "truthy (JObj kv) = (kv \<noteq> [])"

section \<open>The bounds calculator\<close>

text \<open>The four \<^verbatim>\<open>nonlocal\<close> accumulators of \<^verbatim>\<open>calculate_bounds\<close>.\<close>

record acc =
  min_lng :: json
  min_lat :: json
  max_lng :: json
  max_lat :: json

definition init_acc :: acc where
  "init_acc = \<lparr>min_lng = JFloat PosInf, min_lat = JFloat PosInf,
              max_lng = JFloat NegInf, max_lat = JFloat NegInf\<rparr>"

definition fold_pair :: "json \<Rightarrow> json \<Rightarrow> acc \<Rightarrow> acc" where
  "fold_pair lng lat a =
     \<lparr>min_lng = py_min (min_lng a) lng, min_lat = py_min (min_lat a) lat,
      max_lng = py_max (max_lng a) lng, max_lat = py_max (max_lat a) lat\<rparr>"

text \<open>
  \<^verbatim>\<open>process_coords\<close>.  \<^verbatim>\<open>coords[0]\<close> raises \<^verbatim>\<open>IndexError\<close> on an empty list or string,
  \<^verbatim>\<open>KeyError\<close> on a dict (its keys are strings) and \<^verbatim>\<open>TypeError\<close> on \<^verbatim>\<open>None\<close> or a number.
  In the leaf branch \<^verbatim>\<open>coords[1]\<close> raises \<^verbatim>\<open>IndexError\<close> on a one-element list, and
  \<^verbatim>\<open>min(min_lat, lat)\<close> raises \<^verbatim>\<open>TypeError\<close> when \<^verbatim>\<open>lat\<close> is not a number (the
  accumulators always are numbers).  A non-empty string is not a leaf, and iterating it
  yields one-character strings that recurse on themselves until \<^verbatim>\<open>RecursionError\<close>.
  The interpreter's recursion limit on deeply nested lists is not modelled.
\<close>

fun process_coords :: "json \<Rightarrow> acc \<Rightarrow> py_error + acc"
  and process_each :: "json list \<Rightarrow> acc \<Rightarrow> py_error + acc" where
  "process_coords (JArr []) a = Inl IndexError"
| "process_coords (JArr (c0 # cs)) a =
     (if is_number c0 then
        (case cs of
           [] \<Rightarrow> Inl IndexError
         | c1 # _ \<Rightarrow> if is_number c1 then Inr (fold_pair c0 c1 a) else Inl TypeError)
      else process_each (c0 # cs) a)"
| "process_coords (JStr s) a = (if s = [] then Inl IndexError else Inl RecursionError)"
| "process_coords (JObj kv) a = Inl KeyError"
| "process_coords JNull a = Inl TypeError"
| "process_coords (JBool b) a = Inl TypeError"
| "process_coords (JInt i) a = Inl TypeError"
| "process_coords (JFloat f) a = Inl TypeError"
| "process_each [] a = Inr a"
| "process_each (c # cs) a =
     (case process_coords c a of
        Inl e \<Rightarrow> Inl e
      | Inr a' \<Rightarrow> process_each cs a')"

text \<open>
  One iteration of \<^verbatim>\<open>for feature in features\<close>: \<^verbatim>\<open>feature.get\<close> and \<^verbatim>\<open>geom.get\<close> raise
  \<^verbatim>\<open>AttributeError\<close> on anything that is not a dict.
\<close>

definition process_feature :: "json \<Rightarrow> acc \<Rightarrow> py_error + acc" where
  "process_feature feature a =
     (case feature of
        JObj kv \<Rightarrow>
          (case (case map_of kv ''geometry'' of None \<Rightarrow> JObj [] | Some g \<Rightarrow> g) of
             JObj g \<Rightarrow>
               (let coords = (case map_of g ''coordinates'' of None \<Rightarrow> JNull | Some c \<Rightarrow> c)
                in if truthy coords then process_coords coords a else Inr a)
           | _ \<Rightarrow> Inl AttributeError)
      | _ \<Rightarrow> Inl AttributeError)"

fun process_features :: "json list \<Rightarrow> acc \<Rightarrow> py_error + acc" where
  "process_features [] a = Inr a"
| "process_features (f # fs) a =
     (case process_feature f a of
        Inl e \<Rightarrow> Inl e
      | Inr a' \<Rightarrow> process_features fs a')"

text \<open>\<^verbatim>\<open>calculate_bounds\<close>; \<^verbatim>\<open>None\<close> is the Python \<^verbatim>\<open>None\<close> result.\<close>

definition calculate_bounds :: "json list \<Rightarrow> py_error + json list option" where
  "calculate_bounds features =
     (if features = [] then Inr None
      else
        (case process_features features init_acc of
           Inl e \<Rightarrow> Inl e
         | Inr a \<Rightarrow>
             if num_val (min_lng a) = Some PosInf then Inr None
             else Inr (Some [min_lng a, min_lat a, max_lng a, max_lat a])))"

section \<open>The record store\<close>

text \<open>
  \<^verbatim>\<open>LAYERS_DIR\<close> holds, per layer identifier, the file \<^verbatim>\<open><id>.geojson\<close> and the file
  \<^verbatim>\<open><id>.meta.json\<close>.  No name has both suffixes, so the directory is two
  tables keyed by the identifier, each in the order in which the directory enumerates
  its entries.  A file is intact, holding the complete text that \<^verbatim>\<open>json.dump\<close> wrote, that
  is the value \<^verbatim>\<open>json.load\<close> reads back (for a metadata file the dict that \<^verbatim>\<open>save_layer\<close>
  builds), or it is truncated: \<^verbatim>\<open>open(path, 'w')\<close> created or emptied it and the write
  raised before the text was complete.  A truncated file exists, and \<^verbatim>\<open>json.load\<close> rejects
  its empty or cut-off text with \<^verbatim>\<open>JSONDecodeError\<close>.
\<close>

datatype 'a disk_file = Intact 'a | Truncated

record metadata =
  layer_id :: string
  name :: string
  description :: "string option"
  feature_count :: nat
  geometry_type :: json
  bounds :: "json list option"
  created_at :: string
  file_size :: nat

record store =
  geojson_files :: "(string \<times> json disk_file) list"
  meta_files :: "(string \<times> metadata disk_file) list"

text \<open>
  How a \<^verbatim>\<open>with open(path, 'w') as f: json.dump(..., f)\<close> statement ends: the file is
  written; or \<^verbatim>\<open>open\<close> raises \<^verbatim>\<open>OSError\<close> and the directory is as before; or \<^verbatim>\<open>open\<close>
  succeeds, so that the file exists and is empty, and writing, flushing or closing raises
  \<^verbatim>\<open>OSError\<close>, which leaves the file truncated.
\<close>

datatype write_outcome = Written | OpenFails | WriteFails

text \<open>
  What a call takes from its environment: the identifier \<^verbatim>\<open>generate_layer_id()\<close> draws,
  the clock reading \<^verbatim>\<open>datetime.now().isoformat()\<close>, how the write of the GeoJSON file
  and the write of the metadata file end, and the size \<^verbatim>\<open>os.path.getsize\<close> reports for the
  GeoJSON file.
\<close>

record env =
  new_id :: string
  now :: string
  geojson_write :: write_outcome
  meta_write :: write_outcome
  geojson_size :: nat

definition geojson_write_ok :: "env \<Rightarrow> bool" where
  "geojson_write_ok e = (geojson_write e = Written)"

definition meta_write_ok :: "env \<Rightarrow> bool" where
  "meta_write_ok e = (meta_write e = Written)"

text \<open>\<^verbatim>\<open>open(path, 'w')\<close> and \<^verbatim>\<open>json.dump\<close>: replace the file's content, or create the file.\<close>

fun write_file :: "string \<Rightarrow> 'a \<Rightarrow> (string \<times> 'a) list \<Rightarrow> (string \<times> 'a) list" where
  "write_file k v [] = [(k, v)]"
| "write_file k v ((k', v') # fs) =
     (if k' = k then (k, v) # fs else (k', v') # write_file k v fs)"

definition path_exists :: "string \<Rightarrow> (string \<times> 'a) list \<Rightarrow> bool" where
  "path_exists k fs = (case map_of fs k of None \<Rightarrow> False | Some _ \<Rightarrow> True)"

definition unlink :: "string \<Rightarrow> (string \<times> 'a) list \<Rightarrow> (string \<times> 'a) list" where
  "unlink k fs = filter (\<lambda>(k', v). k' \<noteq> k) fs"

text \<open>\<^verbatim>\<open>json.load(f)\<close> on an existing file.\<close>

definition json_load :: "'a disk_file \<Rightarrow> py_error + 'a" where
  "json_load f = (case f of Intact v \<Rightarrow> Inr v | Truncated \<Rightarrow> Inl JSONDecodeError)"

text \<open>\<^verbatim>\<open>geojson.get('features', [])\<close>.\<close>

definition get_features :: "json \<Rightarrow> py_error + json" where
  "get_features geojson =
     (case geojson of
        JObj kv \<Rightarrow> Inr (case map_of kv ''features'' of None \<Rightarrow> JArr [] | Some fs \<Rightarrow> fs)
      | _ \<Rightarrow> Inl AttributeError)"

text \<open>\<^verbatim>\<open>len(features)\<close>.\<close>

definition py_len :: "json \<Rightarrow> py_error + nat" where
  "py_len v =
     (case v of
        JArr xs \<Rightarrow> Inr (length xs)
      | JStr s \<Rightarrow> Inr (length s)
      | JObj kv \<Rightarrow> Inr (length kv)
      | _ \<Rightarrow> Inl TypeError)"

text \<open>
  The block \<^verbatim>\<open># Get geometry type\<close>: \<^verbatim>\<open>features[0].get('geometry', {}).get('type')\<close> when
  \<^verbatim>\<open>features\<close> is truthy, else \<^verbatim>\<open>None\<close>.
\<close>

definition first_geometry_type :: "json \<Rightarrow> py_error + json" where
  "first_geometry_type features =
     (if truthy features then
        (case features of
           JArr fs \<Rightarrow>
             (case fs of
                [] \<Rightarrow> Inl IndexError
              | JObj kv # _ \<Rightarrow>
                  (case (case map_of kv ''geometry'' of None \<Rightarrow> JObj [] | Some g \<Rightarrow> g) of
                     JObj g \<Rightarrow> Inr (case map_of g ''type'' of None \<Rightarrow> JNull | Some t \<Rightarrow> t)
                   | _ \<Rightarrow> Inl AttributeError)
              | _ \<Rightarrow> Inl AttributeError)
         | JStr s \<Rightarrow> Inl AttributeError
         | JObj kv \<Rightarrow> Inl KeyError
         | _ \<Rightarrow> Inl TypeError)
      else Inr JNull)"

text \<open>
  \<^verbatim>\<open>calculate_bounds(features)\<close> as \<^verbatim>\<open>save_layer\<close> calls it, on whatever the
  \<^verbatim>\<open>features\<close> entry holds: anything falsy gives \<^verbatim>\<open>None\<close>, the characters of a string
  and the keys of a dict have no \<^verbatim>\<open>get\<close>, and other values are not iterable.
\<close>

definition calculate_bounds_of :: "json \<Rightarrow> py_error + json list option" where
  "calculate_bounds_of features =
     (case features of
        JArr fs \<Rightarrow> calculate_bounds fs
      | JStr s \<Rightarrow> if truthy features then Inl AttributeError else Inr None
      | JObj kv \<Rightarrow> if truthy features then Inl AttributeError else Inr None
      | _ \<Rightarrow> if truthy features then Inl TypeError else Inr None)"

text \<open>The block \<^verbatim>\<open># Calculate metadata\<close> to \<^verbatim>\<open># Save metadata\<close> of \<^verbatim>\<open>save_layer\<close>.\<close>

definition build_metadata ::
  "env \<Rightarrow> string \<Rightarrow> string \<Rightarrow> json \<Rightarrow> string option \<Rightarrow> py_error + metadata" where
  "build_metadata e lid nm geojson descr =
     (case get_features geojson of
        Inl err \<Rightarrow> Inl err
      | Inr features \<Rightarrow>
          (case py_len features of
             Inl err \<Rightarrow> Inl err
           | Inr n \<Rightarrow>
               (case first_geometry_type features of
                  Inl err \<Rightarrow> Inl err
                | Inr gt \<Rightarrow>
                    (case calculate_bounds_of features of
                       Inl err \<Rightarrow> Inl err
                     | Inr b \<Rightarrow>
                         Inr \<lparr>layer_id = lid, name = nm, description = descr,
                              feature_count = n, geometry_type = gt, bounds = b,
                              created_at = now e, file_size = geojson_size e\<rparr>))))"

text \<open>
  \<^verbatim>\<open>save_layer\<close>: the GeoJSON file is written first, then the metadata is computed, then
  the metadata file is written.  Nothing is caught, so whatever is raised leaves the store
  as it is at that point, a truncated file included.
\<close>

definition save_layer ::
  "env \<Rightarrow> store \<Rightarrow> string \<Rightarrow> string \<Rightarrow> json \<Rightarrow> string option
     \<Rightarrow> (py_error + metadata) \<times> store" where
  "save_layer e s lid nm geojson descr =
     (case geojson_write e of
        OpenFails \<Rightarrow> (Inl OSError, s)
      | WriteFails \<Rightarrow>
          (Inl OSError, s\<lparr>geojson_files := write_file lid Truncated (geojson_files s)\<rparr>)
      | Written \<Rightarrow>
          (let s1 = s\<lparr>geojson_files := write_file lid (Intact geojson) (geojson_files s)\<rparr> in
             (case build_metadata e lid nm geojson descr of
                Inl err \<Rightarrow> (Inl err, s1)
              | Inr m \<Rightarrow>
                  (case meta_write e of
                     OpenFails \<Rightarrow> (Inl OSError, s1)
                   | WriteFails \<Rightarrow>
                       (Inl OSError,
                        s1\<lparr>meta_files := write_file lid Truncated (meta_files s1)\<rparr>)
                   | Written \<Rightarrow>
                       (Inr m,
                        s1\<lparr>meta_files := write_file lid (Intact m) (meta_files s1)\<rparr>)))))"

text \<open>
  \<^verbatim>\<open>get_layer\<close> and \<^verbatim>\<open>get_layer_geojson\<close>: \<^verbatim>\<open>None\<close> when the file does not exist, else
  what \<^verbatim>\<open>json.load\<close> gives.
\<close>

definition get_layer :: "store \<Rightarrow> string \<Rightarrow> py_error + metadata option" where
  "get_layer s lid =
     (case map_of (meta_files s) lid of
        None \<Rightarrow> Inr None
      | Some f \<Rightarrow> (case json_load f of Inl err \<Rightarrow> Inl err | Inr m \<Rightarrow> Inr (Some m)))"

definition get_layer_geojson :: "store \<Rightarrow> string \<Rightarrow> py_error + json option" where
  "get_layer_geojson s lid =
     (case map_of (geojson_files s) lid of
        None \<Rightarrow> Inr None
      | Some f \<Rightarrow> (case json_load f of Inl err \<Rightarrow> Inl err | Inr g \<Rightarrow> Inr (Some g)))"

text \<open>
  \<^verbatim>\<open>list_layers\<close>: the glob enumerates the metadata files in directory order and the loop
  loads each, stopping at the first that does not load; \<^verbatim>\<open>list.sort(key, reverse=True)\<close>
  reverses the list, sorts it stably in ascending key order and reverses the result.
\<close>

fun load_all :: "'a disk_file list \<Rightarrow> py_error + 'a list" where
  "load_all [] = Inr []"
| "load_all (f # fs) =
     (case json_load f of
        Inl err \<Rightarrow> Inl err
      | Inr v \<Rightarrow> (case load_all fs of Inl err \<Rightarrow> Inl err | Inr vs \<Rightarrow> Inr (v # vs)))"

definition list_layers :: "store \<Rightarrow> py_error + metadata list" where
  "list_layers s =
     (case load_all (map snd (meta_files s)) of
        Inl err \<Rightarrow> Inl err
      | Inr layers \<Rightarrow> Inr (rev (sort_key created_at (rev layers))))"

definition delete_layer :: "store \<Rightarrow> string \<Rightarrow> bool \<times> store" where
  "delete_layer s lid =
     (let deleted = False;
          (deleted, s) =
            (if path_exists lid (geojson_files s)
             then (True, s\<lparr>geojson_files := unlink lid (geojson_files s)\<rparr>)
             else (deleted, s));
          (deleted, s) =
            (if path_exists lid (meta_files s)
             then (True, s\<lparr>meta_files := unlink lid (meta_files s)\<rparr>)
             else (deleted, s))
      in (deleted, s))"

section \<open>The upload handler and the router\<close>

text \<open>
  A string is the list of its UTF-8 bytes.  \<^verbatim>\<open>content.decode('utf-8')\<close> succeeds exactly
  on well-formed UTF-8 (no overlong form, no surrogate, nothing above U+10FFFF) and then
  denotes the same bytes.
\<close>

definition cont_byte :: "nat \<Rightarrow> bool" where
  "cont_byte b = (128 \<le> b \<and> b \<le> 191)"

fun utf8_valid :: "nat list \<Rightarrow> bool" where
  "utf8_valid [] = True"
| "utf8_valid (b # bs) =
     (if b < 128 then utf8_valid bs
      else if 194 \<le> b \<and> b \<le> 223 then
        (case bs of
           c1 # r \<Rightarrow> cont_byte c1 \<and> utf8_valid r
         | _ \<Rightarrow> False)
      else if 224 \<le> b \<and> b \<le> 239 then
        (case bs of
           c1 # c2 # r \<Rightarrow>
             cont_byte c1 \<and> cont_byte c2 \<and> (if b = 224 then 160 \<le> c1 else True)
               \<and> (if b = 237 then c1 \<le> 159 else True) \<and> utf8_valid r
         | _ \<Rightarrow> False)
      else if 240 \<le> b \<and> b \<le> 244 then
        (case bs of
           c1 # c2 # c3 # r \<Rightarrow>
             cont_byte c1 \<and> cont_byte c2 \<and> cont_byte c3
               \<and> (if b = 240 then 144 \<le> c1 else True)
               \<and> (if b = 244 then c1 \<le> 143 else True) \<and> utf8_valid r
         | _ \<Rightarrow> False)
      else False)"

definition decode_utf8 :: "string \<Rightarrow> string option" where
  "decode_utf8 content =
     (if utf8_valid (map of_char content) then Some content else None)"

text \<open>\<^verbatim>\<open>s.endswith(suffix)\<close> and \<^verbatim>\<open>s.rsplit('.', 1)[0]\<close>.\<close>

definition endswith :: "string \<Rightarrow> string \<Rightarrow> bool" where
  "endswith s suffix = (take (length suffix) (rev s) = rev suffix)"

definition rsplit_dot :: "string \<Rightarrow> string" where
  "rsplit_dot s =
     (if CHR ''.'' \<in> set s
      then rev (tl (dropWhile (\<lambda>c. c \<noteq> CHR ''.'') (rev s)))
      else s)"

text \<open>
  The block \<^verbatim>\<open># Validate GeoJSON structure\<close> of \<^verbatim>\<open>upload_layer\<close>.  \<^verbatim>\<open>geojson.get\<close> raises
  \<^verbatim>\<open>AttributeError\<close> when the parsed value is not a dict.
\<close>

definition normalize_geojson :: "json \<Rightarrow> py_error + json" where
  "normalize_geojson geojson =
     (case geojson of
        JObj kv \<Rightarrow>
          if map_of kv ''type'' = Some (JStr ''FeatureCollection'') then Inr geojson
          else if map_of kv ''type'' = Some (JStr ''Feature'') then
            Inr (JObj [(''type'', JStr ''FeatureCollection''), (''features'', JArr [geojson])])
          else if path_exists ''coordinates'' kv then
            Inr (JObj [(''type'', JStr ''FeatureCollection''),
                       (''features'', JArr [JObj [(''type'', JStr ''Feature''),
                                                  (''geometry'', geojson),
                                                  (''properties'', JObj [])]])])
          else Inl (HTTPException 400
                 ''Invalid GeoJSON: must be FeatureCollection, Feature, or Geometry'')
      | _ \<Rightarrow> Inl AttributeError)"

record upload_response =
  success :: bool
  resp_layer_id :: string
  resp_name :: string
  resp_feature_count :: nat
  message :: string

text \<open>
  The body of the \<^verbatim>\<open>try\<close> statement of \<^verbatim>\<open>upload_layer\<close>.  \<^verbatim>\<open>json.loads\<close> is the
  parameter \<open>loads\<close>: \<open>None\<close> stands for \<^verbatim>\<open>JSONDecodeError\<close>.
\<close>

definition upload_body ::
  "(string \<Rightarrow> json option) \<Rightarrow> env \<Rightarrow> store \<Rightarrow> string \<Rightarrow> string option \<Rightarrow> string option
     \<Rightarrow> string \<Rightarrow> (py_error + upload_response) \<times> store" where
  "upload_body loads e s filename nm descr content =
     (case decode_utf8 content of
        None \<Rightarrow> (Inl UnicodeDecodeError, s)
      | Some text \<Rightarrow>
          (case loads text of
             None \<Rightarrow> (Inl JSONDecodeError, s)
           | Some geojson \<Rightarrow>
               (case normalize_geojson geojson of
                  Inl err \<Rightarrow> (Inl err, s)
                | Inr collection \<Rightarrow>
                    (let lid = new_id e;
                         layer_name =
                           (case nm of
                              None \<Rightarrow> rsplit_dot filename
                            | Some n \<Rightarrow> if n = [] then rsplit_dot filename else n)
                     in case save_layer e s lid layer_name collection descr of
                          (Inl err, s') \<Rightarrow> (Inl err, s')
                        | (Inr m, s') \<Rightarrow>
                            (Inr \<lparr>success = True, resp_layer_id = lid,
                                  resp_name = layer_name,
                                  resp_feature_count = feature_count m,
                                  message = ''Layer '' @ [CHR 0x27] @ layer_name @ [CHR 0x27]
                                    @ '' uploaded successfully''\<rparr>,
                             s')))))"

text \<open>
  \<^verbatim>\<open>upload_layer\<close>: the suffix check, then the \<^verbatim>\<open>try\<close> body under its two handlers.
  \<^verbatim>\<open>except json.JSONDecodeError\<close> answers 400; \<^verbatim>\<open>except Exception\<close> answers 500 for
  everything else raised in the body, the \<^verbatim>\<open>HTTPException\<close> of the shape check included.
\<close>

definition upload_layer ::
  "(string \<Rightarrow> json option) \<Rightarrow> env \<Rightarrow> store \<Rightarrow> string \<Rightarrow> string option \<Rightarrow> string option
     \<Rightarrow> string \<Rightarrow> (py_error + upload_response) \<times> store" where
  "upload_layer loads e s filename nm descr content =
     (if endswith filename ''.geojson'' \<or> endswith filename ''.json'' then
        (case upload_body loads e s filename nm descr content of
           (Inl JSONDecodeError, s') \<Rightarrow> (Inl (HTTPException 400 ''Invalid JSON''), s')
         | (Inl err, s') \<Rightarrow> (Inl (HTTPException 500 ''Upload failed''), s')
         | (Inr r, s') \<Rightarrow> (Inr r, s'))
      else (Inl (HTTPException 400 ''File must be .geojson or .json''), s))"

text \<open>
  The other routes of \<^verbatim>\<open>routers/layers.py\<close>, each named after its handler.  They catch
  nothing: what a store function raises leaves the handler as it is.
\<close>

definition router_list_layers :: "store \<Rightarrow> py_error + metadata list \<times> nat" where
  "router_list_layers s =
     (case list_layers s of
        Inl err \<Rightarrow> Inl err
      | Inr layers \<Rightarrow> Inr (layers, length layers))"




section \<open>Notions used to state the properties\<close>

text \<open>
  The coordinate pairs of a coordinates value, as the walk reads them: a list whose first
  element is a number is a leaf and contributes its first two elements.
\<close>

fun pairs_of :: "json \<Rightarrow> (json \<times> json) list" where
  "pairs_of (JArr (c0 # cs)) =
     (if is_number c0 then (case cs of [] \<Rightarrow> [] | c1 # _ \<Rightarrow> [(c0, c1)])
      else concat (map pairs_of (c0 # cs)))"
| "pairs_of _ = []"

text \<open>The \<^verbatim>\<open>coordinates\<close> entry of a feature's geometry, when both are there.\<close>

definition feature_coords :: "json \<Rightarrow> json option" where
  "feature_coords f =
     (case f of
        JObj kv \<Rightarrow>
          (case map_of kv ''geometry'' of
             Some (JObj g) \<Rightarrow> map_of g ''coordinates''
           | _ \<Rightarrow> None)
      | _ \<Rightarrow> None)"

definition coordinate_pairs :: "json list \<Rightarrow> (json \<times> json) list" where
  "coordinate_pairs fs =
     concat (map (\<lambda>f. case feature_coords f of None \<Rightarrow> [] | Some c \<Rightarrow> pairs_of c) fs)"

text \<open>A number that is neither infinite nor \<^verbatim>\<open>nan\<close>.\<close>

definition finite_num :: "json \<Rightarrow> bool" where
  "finite_num v = (case num_val v of Some (Finite r) \<Rightarrow> True | _ \<Rightarrow> False)"

text \<open>
  A well-formed coordinates value, as GeoJSON nests them: a position with at least two
  finite numbers in front, or a non-empty list of well-formed values.
\<close>

fun wf_coords :: "json \<Rightarrow> bool" where
  "wf_coords (JArr (c0 # cs)) =
     (if is_number c0 then
        (case cs of [] \<Rightarrow> False | c1 # _ \<Rightarrow> finite_num c0 \<and> finite_num c1)
      else list_all wf_coords (c0 # cs))"
| "wf_coords _ = False"

text \<open>
  A well-formed feature: a dict whose \<^verbatim>\<open>geometry\<close> is missing or a dict, and whose
  \<^verbatim>\<open>coordinates\<close>, if the geometry has any that are truthy, are well formed.
\<close>

definition wf_feature :: "json \<Rightarrow> bool" where
  "wf_feature f =
     (case f of
        JObj kv \<Rightarrow>
          (case map_of kv ''geometry'' of
             None \<Rightarrow> True
           | Some (JObj g) \<Rightarrow>
               (case map_of g ''coordinates'' of
                  None \<Rightarrow> True
                | Some c \<Rightarrow> if truthy c then wf_coords c else True)
           | Some _ \<Rightarrow> False)
      | _ \<Rightarrow> False)"

text \<open>
  A feature without coordinates: a dict whose \<^verbatim>\<open>geometry\<close> is missing, or is a dict
  (possibly empty) whose \<^verbatim>\<open>coordinates\<close> entry is missing or falsy (\<^verbatim>\<open>None\<close>, \<^verbatim>\<open>[]\<close>).
\<close>

definition no_coordinates :: "json \<Rightarrow> bool" where
  "no_coordinates f =
     (case f of
        JObj kv \<Rightarrow>
          (case map_of kv ''geometry'' of
             None \<Rightarrow> True
           | Some (JObj g) \<Rightarrow>
               (case map_of g ''coordinates'' of
                  None \<Rightarrow> True
                | Some c \<Rightarrow> if truthy c then False else True)
           | Some _ \<Rightarrow> False)
      | _ \<Rightarrow> False)"

text \<open>
  The accumulators enclose a pair; one accumulator state is at least as wide as another;
  every accumulator is a number other than \<^verbatim>\<open>nan\<close>.
\<close>

definition encloses :: "acc \<Rightarrow> json \<times> json \<Rightarrow> bool" where
  "encloses a p =
     (py_le (min_lng a) (fst p) \<and> py_le (fst p) (max_lng a) \<and>
      py_le (min_lat a) (snd p) \<and> py_le (snd p) (max_lat a))"

definition widens :: "acc \<Rightarrow> acc \<Rightarrow> bool" where
  "widens a a' =
     (py_le (min_lng a') (min_lng a) \<and> py_le (max_lng a) (max_lng a') \<and>
      py_le (min_lat a') (min_lat a) \<and> py_le (max_lat a) (max_lat a'))"

definition acc_ok :: "acc \<Rightarrow> bool" where
  "acc_ok a =
     (py_le (min_lng a) (min_lng a) \<and> py_le (max_lng a) (max_lng a) \<and>
      py_le (min_lat a) (min_lat a) \<and> py_le (max_lat a) (max_lat a))"

text \<open>
  Dropping what follows the second element of every leaf of a coordinates value, and
  doing so in the geometry of a feature.
\<close>

fun strip_extra :: "json \<Rightarrow> json" where
  "strip_extra (JArr (c0 # cs)) =
     (if is_number c0 then JArr (take 2 (c0 # cs))
      else JArr (map strip_extra (c0 # cs)))"
| "strip_extra v = v"

definition map_entry ::
  "string \<Rightarrow> (json \<Rightarrow> json) \<Rightarrow> (string \<times> json) list \<Rightarrow> (string \<times> json) list" where
  "map_entry k f kv = map (\<lambda>(k', v). if k' = k then (k', f v) else (k', v)) kv"

definition strip_geometry :: "json \<Rightarrow> json" where
  "strip_geometry g =
     (case g of
        JObj gkv \<Rightarrow> JObj (map_entry ''coordinates'' strip_extra gkv)
      | _ \<Rightarrow> g)"

definition strip_feature :: "json \<Rightarrow> json" where
  "strip_feature f =
     (case f of
        JObj kv \<Rightarrow> JObj (map_entry ''geometry'' strip_geometry kv)
      | _ \<Rightarrow> f)"

section \<open>Sample inputs\<close>

definition polygon_feature :: json where
  "polygon_feature =
     JObj [(''type'', JStr ''Feature''),
           (''geometry'', JObj [(''type'', JStr ''Polygon''),
              (''coordinates'', JArr [JArr [JArr [JInt 0, JInt 0], JArr [JInt 0, JInt 5],
                 JArr [JInt 5, JInt 5], JArr [JInt 5, JInt 0], JArr [JInt 0, JInt 0]]])]),
           (''properties'', JObj [])]"

definition point_feature :: json where
  "point_feature =
     JObj [(''type'', JStr ''Feature''),
           (''geometry'', JObj [(''type'', JStr ''Point''),
              (''coordinates'', JArr [JInt 1, JInt 2])]),
           (''properties'', JObj [])]"

text \<open>An unlocated feature: GeoJSON writes its geometry as \<^verbatim>\<open>null\<close>.\<close>

definition unlocated_feature :: json where
  "unlocated_feature =
     JObj [(''type'', JStr ''Feature''), (''geometry'', JNull), (''properties'', JObj [])]"

text \<open>A line string without positions, and one whose second position is an empty list.\<close>

definition empty_coordinates_feature :: json where
  "empty_coordinates_feature =
     JObj [(''type'', JStr ''Feature''),
           (''geometry'', JObj [(''type'', JStr ''LineString''), (''coordinates'', JArr [])]),
           (''properties'', JObj [])]"

definition nested_empty_feature :: json where
  "nested_empty_feature =
     JObj [(''type'', JStr ''Feature''),
           (''geometry'', JObj [(''type'', JStr ''LineString''),
              (''coordinates'', JArr [JArr [JInt 1, JInt 2], JArr []])]),
           (''properties'', JObj [])]"

text \<open>Features with no geometry entry, an empty geometry, and a geometry without coordinates.\<close>

definition no_geometry_feature :: json where
  "no_geometry_feature = JObj [(''type'', JStr ''Feature''), (''properties'', JObj [])]"

definition empty_geometry_feature :: json where
  "empty_geometry_feature = JObj [(''type'', JStr ''Feature''), (''geometry'', JObj [])]"

definition collection_geometry_feature :: json where
  "collection_geometry_feature =
     JObj [(''type'', JStr ''Feature''),
           (''geometry'', JObj [(''type'', JStr ''GeometryCollection''),
              (''geometries'', JArr [])])]"

text \<open>The same point with an altitude, and with two further elements.\<close>

definition point_with_altitude :: json where
  "point_with_altitude =
     JObj [(''type'', JStr ''Feature''),
           (''geometry'', JObj [(''type'', JStr ''Point''),
              (''coordinates'', JArr [JInt 10, JInt 20, JInt 350])])]"

definition point_with_extras :: json where
  "point_with_extras =
     JObj [(''type'', JStr ''Feature''),
           (''geometry'', JObj [(''type'', JStr ''Point''),
              (''coordinates'', JArr [JInt 10, JInt 20, JInt (-7), JStr ''x''])])]"

text \<open>A collection with one point, an empty store, and a store with three records and one
  GeoJSON file that has no metadata file.\<close>

definition point_collection :: json where
  "point_collection =
     JObj [(''type'', JStr ''FeatureCollection''), (''features'', JArr [point_feature])]"

definition empty_store :: store where
  "empty_store = \<lparr>geojson_files = [], meta_files = []\<rparr>"

definition meta_a :: metadata where
  "meta_a = \<lparr>layer_id = ''aaaa0001'', name = ''roads'', description = None,
             feature_count = 1, geometry_type = JStr ''Point'',
             bounds = Some [JInt 1, JInt 2, JInt 1, JInt 2],
             created_at = ''2024-01-01T10:00:00'', file_size = 120\<rparr>"

definition meta_b :: metadata where
  "meta_b = \<lparr>layer_id = ''bbbb0002'', name = ''parks'', description = Some ''green'',
             feature_count = 1, geometry_type = JStr ''Point'',
             bounds = Some [JInt 1, JInt 2, JInt 1, JInt 2],
             created_at = ''2024-01-02T09:30:00'', file_size = 120\<rparr>"

definition meta_c :: metadata where
  "meta_c = \<lparr>layer_id = ''cccc0003'', name = ''lakes'', description = None,
             feature_count = 0, geometry_type = JNull, bounds = None,
             created_at = ''2024-01-01T10:00:00'', file_size = 43\<rparr>"

definition sample_store :: store where
  "sample_store =
     \<lparr>geojson_files =
        [(''aaaa0001'', Intact point_collection), (''dddd0004'', Intact point_collection),
         (''bbbb0002'', Intact point_collection),
         (''cccc0003'',
          Intact (JObj [(''type'', JStr ''FeatureCollection''), (''features'', JArr [])]))],
      meta_files =
        [(''aaaa0001'', Intact meta_a), (''bbbb0002'', Intact meta_b),
         (''cccc0003'', Intact meta_c)]\<rparr>"



definition ok_env :: env where
  "ok_env =
     \<lparr>new_id = ''ab12cd34'', now = ''2024-03-05T12:00:00'', geojson_write = Written,
      meta_write = Written, geojson_size = 41\<rparr>"

text \<open>The bare point geometry of the specification's example, and its JSON text.\<close>

definition point_geometry :: json where
  "point_geometry =
     JObj [(''type'', JStr ''Point''), (''coordinates'', JArr [JInt 10, JInt 20])]"

definition point_text :: string where
  \<open>point_text = ''{"type":"Point","coordinates":[10,20]}''\<close>

section \<open>Properties of the bounds calculator\<close>

lemma calculate_bounds_nil: "calculate_bounds [] = Inr None"
  by (simp add: calculate_bounds_def)

lemma float_le_trans: "float_le a b \<Longrightarrow> float_le b c \<Longrightarrow> float_le a c"
  by (cases a; cases b; cases c) auto

lemma float_le_total: "float_le a a \<Longrightarrow> float_le b b \<Longrightarrow> \<not> float_lt b a \<Longrightarrow> float_le a b"
  by (cases a; cases b) auto

lemma float_lt_le: "float_lt a b \<Longrightarrow> float_le a b"
  by (cases a; cases b) auto

lemma float_lt_refl: "float_lt a b \<Longrightarrow> float_le a a \<and> float_le b b"
  by (cases a; cases b) auto

lemma py_le_trans: "py_le a b \<Longrightarrow> py_le b c \<Longrightarrow> py_le a c"
  by (auto simp: py_le_def split: option.splits intro: float_le_trans)

lemma py_le_total: "py_le a a \<Longrightarrow> py_le b b \<Longrightarrow> \<not> py_lt b a \<Longrightarrow> py_le a b"
  by (auto simp: py_le_def py_lt_def split: option.splits intro: float_le_total)

lemma py_lt_le: "py_lt a b \<Longrightarrow> py_le a b"
  by (auto simp: py_le_def py_lt_def split: option.splits intro: float_lt_le)

lemma finite_num_le_refl: "finite_num v \<Longrightarrow> py_le v v"
  by (auto simp: finite_num_def py_le_def split: option.splits pyfloat.splits)

lemma finite_num_is_number: "finite_num v \<Longrightarrow> is_number v"
  by (auto simp: finite_num_def is_number_def split: option.splits)

lemma py_min_le:
  assumes "py_le m m" and "py_le x x"
  shows "py_le (py_min m x) m" and "py_le (py_min m x) x" and "py_le (py_min m x) (py_min m x)"
  using assms by (auto simp: py_min_def intro: py_lt_le py_le_total)

lemma py_max_ge:
  assumes "py_le m m" and "py_le x x"
  shows "py_le m (py_max m x)" and "py_le x (py_max m x)" and "py_le (py_max m x) (py_max m x)"
  using assms by (auto simp: py_max_def intro: py_lt_le py_le_total)

lemma fold_pair_props:
  assumes "acc_ok a" and "finite_num x" and "finite_num y"
  shows "acc_ok (fold_pair x y a)" and "widens a (fold_pair x y a)"
    and "encloses (fold_pair x y a) (x, y)"
  using assms
  by (simp_all add: acc_ok_def widens_def encloses_def fold_pair_def py_min_le py_max_ge
      finite_num_le_refl)

lemma widens_refl: "acc_ok a \<Longrightarrow> widens a a"
  by (simp add: acc_ok_def widens_def)

lemma widens_trans: "widens a b \<Longrightarrow> widens b c \<Longrightarrow> widens a c"
  unfolding widens_def by (blast intro: py_le_trans)

lemma encloses_widens: "encloses a p \<Longrightarrow> widens a b \<Longrightarrow> encloses b p"
  unfolding widens_def encloses_def by (blast intro: py_le_trans)

lemma process_coords_wf:
  "wf_coords c \<Longrightarrow> acc_ok a \<Longrightarrow>
     \<exists>a'. process_coords c a = Inr a' \<and> acc_ok a' \<and> widens a a' \<and>
          (\<forall>p \<in> set (pairs_of c). encloses a' p)"
  "list_all wf_coords cs \<Longrightarrow> acc_ok a \<Longrightarrow>
     \<exists>a'. process_each cs a = Inr a' \<and> acc_ok a' \<and> widens a a' \<and>
          (\<forall>p \<in> set (concat (map pairs_of cs)). encloses a' p)"
proof (induction c a and cs a rule: process_coords_process_each.induct)
  case (2 c0 cs a)
  show ?case
  proof (cases "is_number c0")
    case True
    with 2(2) obtain c1 r where cs: "cs = c1 # r" and f: "finite_num c0" "finite_num c1"
      by (auto split: list.splits)
    with True 2(3) show ?thesis
      by (simp add: fold_pair_props finite_num_is_number)
  next
    case False
    with 2 show ?thesis by simp
  qed
next
  case (10 c cs a)
  from 10(3) have wc: "wf_coords c" and wcs: "list_all wf_coords cs" by simp_all
  from 10(1)[OF wc 10(4)] obtain a1 where a1: "process_coords c a = Inr a1" "acc_ok a1"
    "widens a a1" "\<forall>p \<in> set (pairs_of c). encloses a1 p" by blast
  from 10(2)[OF a1(1) wcs a1(2)] obtain a2 where a2: "process_each cs a1 = Inr a2" "acc_ok a2"
    "widens a1 a2" "\<forall>p \<in> set (concat (map pairs_of cs)). encloses a2 p" by blast
  show ?case using a1 a2
    by (auto intro: widens_trans encloses_widens)
qed (simp_all add: widens_refl)


lemma pairs_of_wf_finite:
  "wf_coords c \<Longrightarrow> p \<in> set (pairs_of c) \<Longrightarrow> finite_num (fst p) \<and> finite_num (snd p)"
proof (induction c arbitrary: p rule: wf_coords.induct)
  case (1 c0 cs)
  show ?case
  proof (cases "is_number c0")
    case True
    with 1(2,3) show ?thesis by (auto split: list.splits)
  next
    case False
    with 1(2) have all: "\<forall>c \<in> set (c0 # cs). wf_coords c" by (simp add: list_all_iff)
    from False 1(3) obtain c where c: "c \<in> set (c0 # cs)" "p \<in> set (pairs_of c)" by auto
    with 1(1)[OF False c(1)] all show ?thesis by blast
  qed
qed simp_all

lemma feature_pairs_falsy: "\<not> truthy c \<Longrightarrow> pairs_of c = []"
  by (cases c) auto

lemma process_feature_wf:
  assumes "wf_feature f" and "acc_ok a"
  shows "\<exists>a'. process_feature f a = Inr a' \<and> acc_ok a' \<and> widens a a' \<and>
          (\<forall>p \<in> set (case feature_coords f of None \<Rightarrow> [] | Some c \<Rightarrow> pairs_of c).
              encloses a' p \<and> finite_num (fst p) \<and> finite_num (snd p))"
proof -
  from assms(1) obtain kv where f: "f = JObj kv"
    by (auto simp: wf_feature_def split: json.splits)
  show ?thesis
  proof (cases "map_of kv ''geometry''")
    case None
    with f assms(2) show ?thesis
      by (simp add: process_feature_def feature_coords_def widens_refl)
  next
    case (Some g0)
    with assms(1) f obtain g where g: "g0 = JObj g"
      by (auto simp: wf_feature_def split: json.splits)
    show ?thesis
    proof (cases "map_of g ''coordinates''")
      case None
      with f Some g assms(2) show ?thesis
        by (simp add: process_feature_def feature_coords_def widens_refl)
    next
      case c: (Some c)
      show ?thesis
      proof (cases "truthy c")
        case True
        with assms(1) f Some g c have wf: "wf_coords c" by (simp add: wf_feature_def)
        from process_coords_wf(1)[OF wf assms(2)] pairs_of_wf_finite[OF wf]
        show ?thesis using f Some g c True
          by (auto simp: process_feature_def feature_coords_def)
      next
        case False
        with f Some g c assms(2) show ?thesis
          by (simp add: process_feature_def feature_coords_def widens_refl feature_pairs_falsy)
      qed
    qed
  qed
qed

lemma process_features_wf:
  "list_all wf_feature fs \<Longrightarrow> acc_ok a \<Longrightarrow>
     \<exists>a'. process_features fs a = Inr a' \<and> acc_ok a' \<and> widens a a' \<and>
          (\<forall>p \<in> set (coordinate_pairs fs).
              encloses a' p \<and> finite_num (fst p) \<and> finite_num (snd p))"
proof (induction fs arbitrary: a)
  case Nil
  then show ?case by (simp add: coordinate_pairs_def widens_refl)
next
  case (Cons f fs)
  from Cons.prems have wf: "wf_feature f" and wfs: "list_all wf_feature fs" by simp_all
  from process_feature_wf[OF wf Cons.prems(2)] obtain a1 where
    a1: "process_feature f a = Inr a1" "acc_ok a1" "widens a a1"
      "\<forall>p \<in> set (case feature_coords f of None \<Rightarrow> [] | Some c \<Rightarrow> pairs_of c).
          encloses a1 p \<and> finite_num (fst p) \<and> finite_num (snd p)" by blast
  from Cons.IH[OF wfs a1(2)] obtain a2 where
    a2: "process_features fs a1 = Inr a2" "acc_ok a2" "widens a1 a2"
      "\<forall>p \<in> set (coordinate_pairs fs).
          encloses a2 p \<and> finite_num (fst p) \<and> finite_num (snd p)" by blast
  have split: "set (coordinate_pairs (f # fs)) =
      set (case feature_coords f of None \<Rightarrow> [] | Some c \<Rightarrow> pairs_of c) \<union> set (coordinate_pairs fs)"
    by (simp add: coordinate_pairs_def)
  have "encloses a2 p \<and> finite_num (fst p) \<and> finite_num (snd p)"
    if "p \<in> set (coordinate_pairs (f # fs))" for p
    using that a1(4) a2(3,4) encloses_widens[of a1 p a2] unfolding split by blast
  moreover have "widens a a2" using a1(3) a2(3) by (rule widens_trans)
  ultimately show ?case using a1(1) a2(1,2) by simp
qed

lemma init_acc_ok: "acc_ok init_acc"
  by (simp add: acc_ok_def init_acc_def py_le_def)

lemma le_finite_not_posinf: "py_le m x \<Longrightarrow> finite_num x \<Longrightarrow> num_val m \<noteq> Some PosInf"
  by (auto simp: py_le_def finite_num_def split: option.splits pyfloat.splits)

text \<open>
  Well-formed input.  For every list of well-formed features that holds at least one
  coordinate pair, \<^const>\<open>calculate_bounds\<close> returns a four-element box
  \<open>[minX, minY, maxX, maxY]\<close> with \<open>minX \<le> maxX\<close> and \<open>minY \<le> maxY\<close>, and every coordinate
  pair of the features lies in the box.  This is a statement about the walk as modelled
  here, without the interpreter's recursion limit: it speaks for the code on coordinates
  nested less deeply than that limit, as those of every GeoJSON geometry are.
\<close>

lemma calculate_bounds_encloses:
  assumes "list_all wf_feature fs" and "coordinate_pairs fs \<noteq> []"
  shows "\<exists>x0 y0 x1 y1. calculate_bounds fs = Inr (Some [x0, y0, x1, y1]) \<and>
           py_le x0 x1 \<and> py_le y0 y1 \<and>
           (\<forall>p \<in> set (coordinate_pairs fs).
              py_le x0 (fst p) \<and> py_le (fst p) x1 \<and> py_le y0 (snd p) \<and> py_le (snd p) y1)"
proof -
  from process_features_wf[OF assms(1) init_acc_ok] obtain a where
    a: "process_features fs init_acc = Inr a"
      "\<forall>p \<in> set (coordinate_pairs fs).
          encloses a p \<and> finite_num (fst p) \<and> finite_num (snd p)" by blast
  from assms(2) obtain p where p: "p \<in> set (coordinate_pairs fs)"
    by (cases "coordinate_pairs fs") auto
  with a(2) have e: "encloses a p" and fin: "finite_num (fst p)" by simp_all
  from e have "py_le (min_lng a) (fst p)" by (simp add: encloses_def)
  from le_finite_not_posinf[OF this fin] have "num_val (min_lng a) \<noteq> Some PosInf" .
  moreover from assms(2) have "fs \<noteq> []" by (auto simp: coordinate_pairs_def)
  ultimately have res: "calculate_bounds fs = Inr (Some [min_lng a, min_lat a, max_lng a, max_lat a])"
    using a(1) by (simp add: calculate_bounds_def)
  from e have "py_le (min_lng a) (max_lng a)" "py_le (min_lat a) (max_lat a)"
    unfolding encloses_def by (blast intro: py_le_trans)+
  with res a(2) show ?thesis by (simp add: encloses_def)
qed


lemma calculate_bounds_encloses_example:
  "list_all wf_feature [polygon_feature, point_feature] \<and>
   coordinate_pairs [polygon_feature, point_feature] \<noteq> [] \<and>
   (\<exists>x0 y0 x1 y1.
      calculate_bounds [polygon_feature, point_feature] = Inr (Some [x0, y0, x1, y1]) \<and>
      py_le x0 x1 \<and> py_le y0 y1 \<and>
      list_all (\<lambda>p. py_le x0 (fst p) \<and> py_le (fst p) x1 \<and> py_le y0 (snd p) \<and> py_le (snd p) y1)
        (coordinate_pairs [polygon_feature, point_feature]))"
proof -
  have wf: "list_all wf_feature [polygon_feature, point_feature]"
    by (simp add: polygon_feature_def point_feature_def wf_feature_def is_number_def
        finite_num_def)
  have ne: "coordinate_pairs [polygon_feature, point_feature] \<noteq> []"
    by (simp add: polygon_feature_def point_feature_def coordinate_pairs_def
        feature_coords_def is_number_def)
  from calculate_bounds_encloses[OF wf ne] wf ne show ?thesis
    unfolding list_all_iff by blast
qed

text \<open>
  C1.  For every list of features that holds at least one coordinate pair,
  \<^verbatim>\<open>calculate_bounds\<close> is to return a box that encloses every pair.  A collection with one
  point and one unlocated feature holds the pair \<open>(1, 2)\<close>.  \<^verbatim>\<open>feature.get('geometry', {})\<close>
  supplies \<^verbatim>\<open>{}\<close> only when the key is missing; here it returns the \<^verbatim>\<open>None\<close> stored under
  the key, \<^verbatim>\<open>geom.get\<close> raises \<^verbatim>\<open>AttributeError\<close>, and no box is returned.  With the
  \<^verbatim>\<open>geometry\<close> key missing instead, the feature is skipped and the box of the point is
  returned.
\<close>

theorem calculate_bounds_null_geometry_raises:
  "coordinate_pairs [point_feature, unlocated_feature] = [(JInt 1, JInt 2)] \<and>
   calculate_bounds [point_feature, unlocated_feature] = Inl AttributeError \<and>
   calculate_bounds [point_feature, no_geometry_feature] =
     Inr (Some [JInt 1, JInt 2, JInt 1, JInt 2])"
  by (simp add: point_feature_def unlocated_feature_def no_geometry_feature_def
      coordinate_pairs_def feature_coords_def calculate_bounds_def process_feature_def
      is_number_def init_acc_def fold_pair_def py_min_def py_max_def py_lt_def)

lemma process_features_append:
  "process_features (fs @ gs) a =
     (case process_features fs a of Inl e \<Rightarrow> Inl e | Inr a' \<Rightarrow> process_features gs a')"
  by (induction fs arbitrary: a) (auto split: sum.splits)

lemma process_feature_falsy:
  assumes "feature_coords f = Some c" and "\<not> truthy c"
  shows "process_feature f a = Inr a"
  using assms
  by (auto simp: feature_coords_def process_feature_def split: json.splits option.splits)

lemma process_features_init_none:
  "process_features fs init_acc = Inr init_acc \<Longrightarrow> calculate_bounds fs = Inr None"
  by (simp add: calculate_bounds_def init_acc_def)

text \<open>
  C2, as amended.  An empty sequence as the \<^verbatim>\<open>coordinates\<close> of a geometry (any falsy value
  there) does not crash the walk: the feature leaves the accumulators as they are, and
  \<^const>\<open>calculate_bounds\<close> returns what it returns without that feature.
\<close>

theorem empty_coordinates_skipped:
  assumes "feature_coords f = Some c" and "\<not> truthy c"
  shows "process_feature f a = Inr a \<and>
         calculate_bounds (fs @ f # gs) = calculate_bounds (fs @ gs)"
proof -
  have skip: "process_feature f b = Inr b" for b
    using assms by (rule process_feature_falsy)
  have same: "process_features (fs @ f # gs) init_acc = process_features (fs @ gs) init_acc"
    by (simp add: process_features_append skip split: sum.splits)
  have "calculate_bounds (fs @ f # gs) = calculate_bounds (fs @ gs)"
  proof (cases "fs @ gs = []")
    case True
    then show ?thesis
      by (simp add: calculate_bounds_def skip init_acc_def)
  next
    case False
    then show ?thesis
      by (simp add: calculate_bounds_def same)
  qed
  with skip show ?thesis by simp
qed


theorem empty_coordinates_skipped_witness:
  "feature_coords empty_coordinates_feature = Some (JArr []) \<and> \<not> truthy (JArr []) \<and>
   process_feature empty_coordinates_feature init_acc = Inr init_acc \<and>
   calculate_bounds ([point_feature] @ empty_coordinates_feature # [polygon_feature]) =
     calculate_bounds ([point_feature] @ [polygon_feature])"
proof -
  have c: "feature_coords empty_coordinates_feature = Some (JArr [])"
    by (simp add: empty_coordinates_feature_def feature_coords_def)
  have f: "\<not> truthy (JArr [])" by simp
  from empty_coordinates_skipped[OF c f, of init_acc "[point_feature]" "[polygon_feature]"] c f
  show ?thesis by simp
qed

text \<open>
  As stated for an empty list nested anywhere, C2 fails: \<^verbatim>\<open>coords[0]\<close> on the empty
  second position raises \<^verbatim>\<open>IndexError\<close>, and \<^verbatim>\<open>calculate_bounds\<close> does not return.
\<close>

theorem nested_empty_list_raises:
  "calculate_bounds [nested_empty_feature] = Inl IndexError"
  by (simp add: nested_empty_feature_def calculate_bounds_def process_feature_def
      is_number_def)

lemma process_feature_no_coordinates: "no_coordinates f \<Longrightarrow> process_feature f a = Inr a"
  by (auto simp: no_coordinates_def process_feature_def split: json.splits option.splits if_splits)

lemma process_features_no_coordinates:
  "list_all no_coordinates fs \<Longrightarrow> process_features fs a = Inr a"
  by (induction fs) (simp_all add: process_feature_no_coordinates)

text \<open>
  For a feature list that is empty, or whose features have no \<^verbatim>\<open>geometry\<close> key, an empty
  geometry, or a geometry without a \<^verbatim>\<open>coordinates\<close> entry or with an empty one,
  \<^const>\<open>calculate_bounds\<close> returns \<^verbatim>\<open>None\<close>.
\<close>

lemma no_coordinates_no_bounds:
  assumes "list_all no_coordinates fs"
  shows "calculate_bounds fs = Inr None"
  using process_features_no_coordinates[OF assms, of init_acc]
  by (rule process_features_init_none)


lemma no_coordinates_no_bounds_example:
  "list_all no_coordinates
     [no_geometry_feature, empty_geometry_feature, collection_geometry_feature,
      empty_coordinates_feature] \<and>
   calculate_bounds
     [no_geometry_feature, empty_geometry_feature, collection_geometry_feature,
      empty_coordinates_feature] = Inr None \<and>
   list_all no_coordinates [] \<and> calculate_bounds [] = Inr None"
proof -
  have h: "list_all no_coordinates
     [no_geometry_feature, empty_geometry_feature, collection_geometry_feature,
      empty_coordinates_feature]"
    by (simp add: no_coordinates_def no_geometry_feature_def empty_geometry_feature_def
        collection_geometry_feature_def empty_coordinates_feature_def)
  have e: "list_all no_coordinates []" by simp
  from no_coordinates_no_bounds[OF h] no_coordinates_no_bounds[OF e] h show ?thesis by simp
qed

text \<open>
  C5.  For a feature list whose features hold no coordinate pair, an absent geometry
  included, \<^verbatim>\<open>calculate_bounds\<close> is to return \<^verbatim>\<open>None\<close>.  GeoJSON writes the absent geometry
  of an unlocated feature as \<^verbatim>\<open>null\<close>.  A list of one such feature holds no coordinate pair,
  yet \<^verbatim>\<open>geom.get\<close> raises \<^verbatim>\<open>AttributeError\<close> on the \<^verbatim>\<open>None\<close> that
  \<^verbatim>\<open>feature.get('geometry', {})\<close> returned; with the key missing or the geometry empty the
  result is \<^verbatim>\<open>None\<close>.
\<close>

theorem calculate_bounds_unlocated_raises:
  "coordinate_pairs [unlocated_feature] = [] \<and>
   calculate_bounds [unlocated_feature] = Inl AttributeError \<and>
   calculate_bounds [no_geometry_feature] = Inr None \<and>
   calculate_bounds [empty_geometry_feature] = Inr None"
  by (simp add: unlocated_feature_def no_geometry_feature_def empty_geometry_feature_def
      coordinate_pairs_def feature_coords_def calculate_bounds_def process_feature_def
      init_acc_def)

lemma is_number_strip_extra: "is_number (strip_extra c) = is_number c"
  by (cases c rule: strip_extra.cases) (simp_all add: is_number_def)

lemma truthy_strip_extra: "truthy (strip_extra c) = truthy c"
  by (cases c rule: strip_extra.cases) simp_all

lemma process_coords_strip_extra:
  "process_coords (strip_extra c) a = process_coords c a"
  "process_each (map strip_extra cs) a = process_each cs a"
proof (induction c a and cs a rule: process_coords_process_each.induct)
  case (2 c0 cs a)
  show ?case
  proof (cases "is_number c0")
    case True
    then show ?thesis by (cases cs) simp_all
  next
    case False
    with 2 show ?thesis by (simp add: is_number_strip_extra)
  qed
qed (simp_all split: sum.splits)

lemma map_of_map_entry:
  "map_of (map_entry k f kv) k' =
     (if k' = k then map_option f (map_of kv k) else map_of kv k')"
  by (induction kv) (auto simp: map_entry_def)

lemma process_feature_strip: "process_feature (strip_feature f) a = process_feature f a"
proof (cases f)
  case (JObj kv)
  show ?thesis
  proof (cases "map_of kv ''geometry''")
    case None
    with JObj show ?thesis
      by (simp add: process_feature_def strip_feature_def map_of_map_entry)
  next
    case (Some g)
    with JObj show ?thesis
      by (cases g; cases "map_of (case g of JObj x \<Rightarrow> x | _ \<Rightarrow> []) ''coordinates''")
        (simp_all add: process_feature_def strip_feature_def strip_geometry_def
          map_of_map_entry truthy_strip_extra process_coords_strip_extra)
  qed
qed (simp_all add: strip_feature_def)

lemma process_features_strip:
  "process_features (map strip_feature fs) a = process_features fs a"
  by (induction fs arbitrary: a) (simp_all add: process_feature_strip split: sum.splits)

lemma calculate_bounds_strip: "calculate_bounds (map strip_feature fs) = calculate_bounds fs"
  by (simp add: calculate_bounds_def process_features_strip)

lemma process_feature_coords:
  "feature_coords f = Some c \<Longrightarrow>
     process_feature f a = (if truthy c then process_coords c a else Inr a)"
  by (auto simp: feature_coords_def process_feature_def split: json.splits option.splits)

lemma py_min_inf: "finite_num x \<Longrightarrow> py_min (JFloat PosInf) x = x"
  by (auto simp: finite_num_def py_min_def py_lt_def split: option.splits pyfloat.splits)

lemma py_max_neg_inf: "finite_num x \<Longrightarrow> py_max (JFloat NegInf) x = x"
  by (auto simp: finite_num_def py_max_def py_lt_def split: option.splits pyfloat.splits)

lemma finite_num_not_inf: "finite_num x \<Longrightarrow> num_val x \<noteq> Some PosInf"
  by (auto simp: finite_num_def split: option.splits pyfloat.splits)

text \<open>
  C6.  A leaf with more than two elements contributes its first two elements and nothing
  else: its first element is folded into the longitude accumulators and its second into
  the latitude accumulators, whatever follows them; a feature list with one such leaf of
  finite numbers gets the box \<open>[x, y, x, y]\<close>; and feature lists that differ only in what
  follows the second element of their leaves get the same result from
  \<^const>\<open>calculate_bounds\<close>.
\<close>

theorem extra_dimensions_ignored:
  assumes "is_number x" and "is_number y"
  shows "process_coords (JArr (x # y # extra)) a =
           Inr \<lparr>min_lng = py_min (min_lng a) x, min_lat = py_min (min_lat a) y,
                max_lng = py_max (max_lng a) x, max_lat = py_max (max_lat a) y\<rparr> \<and>
         (finite_num x \<and> finite_num y \<and> feature_coords f = Some (JArr (x # y # extra)) \<longrightarrow>
            calculate_bounds [f] = Inr (Some [x, y, x, y])) \<and>
         (map strip_feature fs = map strip_feature fs' \<longrightarrow>
            calculate_bounds fs = calculate_bounds fs')"
proof -
  have leaf: "process_coords (JArr (x # y # extra)) b = Inr (fold_pair x y b)" for b
    using assms by simp
  have one: "calculate_bounds [f] = Inr (Some [x, y, x, y])"
    if "finite_num x" and "finite_num y" and "feature_coords f = Some (JArr (x # y # extra))"
    using that leaf[of init_acc]
    by (simp add: calculate_bounds_def process_feature_coords fold_pair_def init_acc_def
        py_min_inf py_max_neg_inf finite_num_not_inf)
  have same: "calculate_bounds fs = calculate_bounds fs'"
    if "map strip_feature fs = map strip_feature fs'"
    using that calculate_bounds_strip[of fs] calculate_bounds_strip[of fs'] by simp
  from leaf[of a] one same show ?thesis by (simp add: fold_pair_def)
qed

theorem extra_dimensions_ignored_witness:
  "is_number (JInt 10) \<and> is_number (JInt 20) \<and>
   process_coords (JArr [JInt 10, JInt 20, JInt 350])
     \<lparr>min_lng = JInt 15, min_lat = JInt 5, max_lng = JInt 15, max_lat = JInt 5\<rparr> =
     Inr \<lparr>min_lng = JInt 10, min_lat = JInt 5, max_lng = JInt 15, max_lat = JInt 20\<rparr> \<and>
   feature_coords point_with_altitude = Some (JArr [JInt 10, JInt 20, JInt 350]) \<and>
   calculate_bounds [point_with_altitude] = Inr (Some [JInt 10, JInt 20, JInt 10, JInt 20]) \<and>
   map strip_feature [point_with_altitude] = map strip_feature [point_with_extras] \<and>
   calculate_bounds [point_with_altitude] = calculate_bounds [point_with_extras]"
proof -
  have n: "is_number (JInt 10)" "is_number (JInt 20)"
    and fin: "finite_num (JInt 10)" "finite_num (JInt 20)"
    by (simp_all add: is_number_def finite_num_def)
  have c: "feature_coords point_with_altitude = Some (JArr [JInt 10, JInt 20, JInt 350])"
    by (simp add: point_with_altitude_def feature_coords_def)
  have h: "map strip_feature [point_with_altitude] = map strip_feature [point_with_extras]"
    by (simp add: point_with_altitude_def point_with_extras_def strip_feature_def
        strip_geometry_def map_entry_def is_number_def)
  note t = extra_dimensions_ignored[OF n, of "[JInt 350]"
      "\<lparr>min_lng = JInt 15, min_lat = JInt 5, max_lng = JInt 15, max_lat = JInt 5\<rparr>"
      point_with_altitude "[point_with_altitude]" "[point_with_extras]"]
  from t have leaf: "process_coords (JArr [JInt 10, JInt 20, JInt 350])
     \<lparr>min_lng = JInt 15, min_lat = JInt 5, max_lng = JInt 15, max_lat = JInt 5\<rparr> =
     Inr \<lparr>min_lng = JInt 10, min_lat = JInt 5, max_lng = JInt 15, max_lat = JInt 20\<rparr>"
    by (simp add: py_min_def py_max_def py_lt_def)
  from t fin c have one: "calculate_bounds [point_with_altitude] =
      Inr (Some [JInt 10, JInt 20, JInt 10, JInt 20])" by blast
  from t h have same: "calculate_bounds [point_with_altitude] =
      calculate_bounds [point_with_extras]" by blast
  from n leaf c one h same show ?thesis by (intro conjI)
qed

section \<open>Properties of the record store\<close>

lemma map_of_write_file:
  "map_of (write_file k v fs) k' = (if k' = k then Some v else map_of fs k')"
  by (induction fs) auto

lemma map_of_unlink:
  "map_of (unlink k fs) k' = (if k' = k then None else map_of fs k')"
  by (induction fs) (auto simp: unlink_def)



lemma write_file_mem: "(k, v) \<in> set (write_file k v fs)"
  by (induction fs) auto





text \<open>
  C9.  \<^const>\<open>delete_layer\<close> leaves neither artifact of the identifier behind, whichever of
  the two existed, touches no other identifier, and returns true exactly when at least one
  of the two artifacts existed.
\<close>

theorem delete_layer_removes_both:
  "get_layer_geojson (snd (delete_layer s lid)) lid = Inr None \<and>
   get_layer (snd (delete_layer s lid)) lid = Inr None \<and>
   \<not> path_exists lid (geojson_files (snd (delete_layer s lid))) \<and>
   \<not> path_exists lid (meta_files (snd (delete_layer s lid))) \<and>
   fst (delete_layer s lid) =
     (get_layer_geojson s lid \<noteq> Inr None \<or> get_layer s lid \<noteq> Inr None) \<and>
   fst (delete_layer s lid) =
     (path_exists lid (geojson_files s) \<or> path_exists lid (meta_files s)) \<and>
   (\<forall>k. k \<noteq> lid \<longrightarrow>
      get_layer_geojson (snd (delete_layer s lid)) k = get_layer_geojson s k \<and>
      get_layer (snd (delete_layer s lid)) k = get_layer s k)"
  by (auto simp: delete_layer_def get_layer_def get_layer_geojson_def path_exists_def
      map_of_unlink json_load_def split: option.splits disk_file.splits)

theorem delete_layer_removes_both_witness:
  "fst (delete_layer sample_store ''dddd0004'') \<and>
   get_layer_geojson (snd (delete_layer sample_store ''dddd0004'')) ''dddd0004'' = Inr None \<and>
   get_layer (snd (delete_layer sample_store ''dddd0004'')) ''aaaa0001'' = Inr (Some meta_a) \<and>
   fst (delete_layer sample_store ''aaaa0001'') \<and>
   get_layer (snd (delete_layer sample_store ''aaaa0001'')) ''aaaa0001'' = Inr None \<and>
   \<not> fst (delete_layer sample_store ''eeee0005'')"
  using delete_layer_removes_both[of sample_store "''dddd0004''"]
    delete_layer_removes_both[of sample_store "''aaaa0001''"]
    delete_layer_removes_both[of sample_store "''eeee0005''"]
  by (simp add: sample_store_def get_layer_def get_layer_geojson_def json_load_def
      path_exists_def)








section \<open>Properties of the upload handler\<close>

lemma save_layer_stores_geojson:
  "geojson_write_ok e \<Longrightarrow>
     get_layer_geojson (snd (save_layer e s lid nm geojson descr)) lid = Inr (Some geojson)"
  by (auto simp: save_layer_def Let_def get_layer_geojson_def map_of_write_file json_load_def
      geojson_write_ok_def split: sum.splits write_outcome.splits)

lemma upload_layer_store:
  "endswith filename ''.geojson'' \<or> endswith filename ''.json'' \<Longrightarrow>
     snd (upload_layer loads e s filename nm descr content) =
     snd (upload_body loads e s filename nm descr content)"
  by (auto simp: upload_layer_def split: prod.splits sum.splits py_error.splits)

lemma upload_body_store:
  "decode_utf8 content = Some text \<Longrightarrow> loads text = Some geojson \<Longrightarrow>
   normalize_geojson geojson = Inr collection \<Longrightarrow>
     snd (upload_body loads e s filename nm descr content) =
     snd (save_layer e s (new_id e)
            (case nm of None \<Rightarrow> rsplit_dot filename
             | Some n \<Rightarrow> if n = [] then rsplit_dot filename else n) collection descr)"
  by (auto simp: upload_body_def Let_def split: prod.splits sum.splits)

lemma upload_body_response:
  "decode_utf8 content = Some text \<Longrightarrow> loads text = Some geojson \<Longrightarrow>
   normalize_geojson geojson = Inr collection \<Longrightarrow>
   fst (save_layer e s (new_id e)
            (case nm of None \<Rightarrow> rsplit_dot filename
             | Some n \<Rightarrow> if n = [] then rsplit_dot filename else n) collection descr) = Inr m \<Longrightarrow>
   endswith filename ''.geojson'' \<or> endswith filename ''.json'' \<Longrightarrow>
     \<exists>r. fst (upload_layer loads e s filename nm descr content) = Inr r \<and>
         resp_feature_count r = feature_count m \<and> resp_layer_id r = new_id e \<and> success r"
  by (auto simp: upload_layer_def upload_body_def Let_def split: prod.splits sum.splits)

lemma save_point_collection:
  assumes "geojson_write_ok e" and "meta_write_ok e"
  shows "\<exists>m. fst (save_layer e s lid nm
             (JObj [(''type'', JStr ''FeatureCollection''),
                    (''features'', JArr [JObj [(''type'', JStr ''Feature''),
                                               (''geometry'', point_geometry),
                                               (''properties'', JObj [])]])]) descr) = Inr m \<and>
           get_layer (snd (save_layer e s lid nm
             (JObj [(''type'', JStr ''FeatureCollection''),
                    (''features'', JArr [JObj [(''type'', JStr ''Feature''),
                                               (''geometry'', point_geometry),
                                               (''properties'', JObj [])]])]) descr)) lid =
             Inr (Some m) \<and>
           geometry_type m = JStr ''Point'' \<and> feature_count m = 1 \<and>
           bounds m = Some [JInt 10, JInt 20, JInt 10, JInt 20]"
  using assms
  by (simp add: save_layer_def build_metadata_def get_features_def py_len_def
      first_geometry_type_def calculate_bounds_of_def calculate_bounds_def process_feature_def
      point_geometry_def is_number_def init_acc_def fold_pair_def py_min_def py_max_def
      py_lt_def get_layer_def map_of_write_file json_load_def geojson_write_ok_def
      meta_write_ok_def)

text \<open>
  C4.  An uploaded JSON object whose \<^verbatim>\<open>type\<close> is neither \<^verbatim>\<open>"FeatureCollection"\<close> nor
  \<^verbatim>\<open>"Feature"\<close> and that has a \<^verbatim>\<open>coordinates\<close> key is wrapped as a feature collection with
  exactly one feature, whose geometry is the uploaded object and whose properties are
  empty, and that collection is what gets stored.  For the point
  \<^verbatim>\<open>{"type":"Point","coordinates":[10,20]}\<close> the stored record has geometry type
  \<^verbatim>\<open>"Point"\<close>, feature count 1 and bounds \<open>[10, 20, 10, 20]\<close>.
\<close>

theorem upload_wraps_bare_geometry:
  assumes "endswith filename ''.geojson'' \<or> endswith filename ''.json''"
    and "decode_utf8 content = Some text"
    and "loads text = Some (JObj kv)"
    and "map_of kv ''type'' \<noteq> Some (JStr ''FeatureCollection'')"
    and "map_of kv ''type'' \<noteq> Some (JStr ''Feature'')"
    and "map_of kv ''coordinates'' \<noteq> None"
    and "geojson_write_ok e"
  shows "normalize_geojson (JObj kv) =
           Inr (JObj [(''type'', JStr ''FeatureCollection''),
                      (''features'', JArr [JObj [(''type'', JStr ''Feature''),
                                                 (''geometry'', JObj kv),
                                                 (''properties'', JObj [])]])]) \<and>
         get_layer_geojson (snd (upload_layer loads e s filename nm descr content)) (new_id e) =
           Inr (Some (JObj [(''type'', JStr ''FeatureCollection''),
                       (''features'', JArr [JObj [(''type'', JStr ''Feature''),
                                                  (''geometry'', JObj kv),
                                                  (''properties'', JObj [])]])])) \<and>
         (JObj kv = point_geometry \<and> meta_write_ok e \<longrightarrow>
            (\<exists>r m. fst (upload_layer loads e s filename nm descr content) = Inr r \<and>
                   resp_feature_count r = 1 \<and>
                   get_layer (snd (upload_layer loads e s filename nm descr content)) (new_id e)
                     = Inr (Some m) \<and>
                   geometry_type m = JStr ''Point'' \<and> feature_count m = 1 \<and>
                   bounds m = Some [JInt 10, JInt 20, JInt 10, JInt 20]))"
proof -
  let ?W = "JObj [(''type'', JStr ''FeatureCollection''),
                  (''features'', JArr [JObj [(''type'', JStr ''Feature''),
                                             (''geometry'', JObj kv),
                                             (''properties'', JObj [])]])]"
  let ?n = "case nm of None \<Rightarrow> rsplit_dot filename
             | Some n \<Rightarrow> if n = [] then rsplit_dot filename else n"
  have norm: "normalize_geojson (JObj kv) = Inr ?W"
    using assms(4,5,6) by (auto simp: normalize_geojson_def path_exists_def)
  have st: "snd (upload_layer loads e s filename nm descr content) =
      snd (save_layer e s (new_id e) ?n ?W descr)"
    using upload_layer_store[OF assms(1)] upload_body_store[where loads = loads, OF assms(2,3) norm]
    by simp
  have stored: "get_layer_geojson (snd (upload_layer loads e s filename nm descr content))
      (new_id e) = Inr (Some ?W)"
    unfolding st using assms(7) by (rule save_layer_stores_geojson)
  have point: "\<exists>r m. fst (upload_layer loads e s filename nm descr content) = Inr r \<and>
                   resp_feature_count r = 1 \<and>
                   get_layer (snd (upload_layer loads e s filename nm descr content)) (new_id e)
                     = Inr (Some m) \<and>
                   geometry_type m = JStr ''Point'' \<and> feature_count m = 1 \<and>
                   bounds m = Some [JInt 10, JInt 20, JInt 10, JInt 20]"
    if p: "JObj kv = point_geometry" and w: "meta_write_ok e"
  proof -
    from save_point_collection[OF assms(7) w, of s "new_id e" ?n descr] obtain m where
      m: "fst (save_layer e s (new_id e) ?n ?W descr) = Inr m"
         "get_layer (snd (save_layer e s (new_id e) ?n ?W descr)) (new_id e) = Inr (Some m)"
         "geometry_type m = JStr ''Point''" "feature_count m = 1"
         "bounds m = Some [JInt 10, JInt 20, JInt 10, JInt 20]"
      unfolding p by blast
    from upload_body_response[where loads = loads, OF assms(2,3) norm m(1) assms(1)] obtain r where
      "fst (upload_layer loads e s filename nm descr content) = Inr r"
      "resp_feature_count r = feature_count m" by blast
    with m show ?thesis unfolding st by auto
  qed
  from norm stored point show ?thesis by blast
qed

theorem upload_wraps_bare_geometry_witness:
  "decode_utf8 point_text = Some point_text \<and>
   get_layer_geojson
     (snd (upload_layer (\<lambda>t. if t = point_text then Some point_geometry else None)
        ok_env empty_store ''point.geojson'' None None point_text)) ''ab12cd34'' =
     Inr (Some (JObj [(''type'', JStr ''FeatureCollection''),
                      (''features'', JArr [JObj [(''type'', JStr ''Feature''),
                                                 (''geometry'', point_geometry),
                                                 (''properties'', JObj [])]])])) \<and>
   (\<exists>r m. fst (upload_layer (\<lambda>t. if t = point_text then Some point_geometry else None)
              ok_env empty_store ''point.geojson'' None None point_text) = Inr r \<and>
          resp_feature_count r = 1 \<and>
          get_layer
            (snd (upload_layer (\<lambda>t. if t = point_text then Some point_geometry else None)
               ok_env empty_store ''point.geojson'' None None point_text)) ''ab12cd34'' =
            Inr (Some m) \<and>
          geometry_type m = JStr ''Point'' \<and> feature_count m = 1 \<and>
          bounds m = Some [JInt 10, JInt 20, JInt 10, JInt 20])"
proof -
  let ?loads = "\<lambda>t. if t = point_text then Some point_geometry else None"
  let ?kv = "[(''type'', JStr ''Point''), (''coordinates'', JArr [JInt 10, JInt 20])]"
  have pg: "point_geometry = JObj ?kv" by (simp add: point_geometry_def)
  have h1: "endswith ''point.geojson'' ''.geojson'' \<or> endswith ''point.geojson'' ''.json''"
    by (simp add: endswith_def)
  have h2: "decode_utf8 point_text = Some point_text"
    by (simp add: decode_utf8_def point_text_def)
  have h3: "?loads point_text = Some (JObj ?kv)" by (simp add: pg)
  have h4: "map_of ?kv ''type'' \<noteq> Some (JStr ''FeatureCollection'')" by simp
  have h5: "map_of ?kv ''type'' \<noteq> Some (JStr ''Feature'')" by simp
  have h6: "map_of ?kv ''coordinates'' \<noteq> None" by simp
  have h7: "geojson_write_ok ok_env" and h8: "meta_write_ok ok_env"
    and id: "new_id ok_env = ''ab12cd34''"
    by (simp_all add: ok_env_def geojson_write_ok_def meta_write_ok_def)
  from upload_wraps_bare_geometry[where loads = ?loads and s = empty_store and nm = None
      and descr = None, OF h1 h2 h3 h4 h5 h6 h7] h2 h8
  show ?thesis unfolding id pg by simp
qed

text \<open>
  Uploads that do not parse.  When the bytes decode and \<^verbatim>\<open>json.loads\<close> rejects the text,
  the handler answers 400; whenever decoding or parsing fails, the store is unchanged.
\<close>

lemma upload_invalid_json_400:
  assumes "endswith filename ''.geojson'' \<or> endswith filename ''.json''"
    and "decode_utf8 content = Some text" and "loads text = None"
  shows "upload_layer loads e s filename nm descr content =
     (Inl (HTTPException 400 ''Invalid JSON''), s)"
  using assms by (simp add: upload_layer_def upload_body_def)

lemma upload_unparsable_store_unchanged:
  assumes "decode_utf8 content = None \<or> (\<exists>text. decode_utf8 content = Some text \<and> loads text = None)"
  shows "snd (upload_layer loads e s filename nm descr content) = s"
  using assms by (auto simp: upload_layer_def upload_body_def)


text \<open>
  C8.  An upload whose bytes are not valid JSON text is to be answered with 400.  The
  single byte \<^verbatim>\<open>0xFF\<close> is not UTF-8, so \<^verbatim>\<open>content.decode('utf-8')\<close> raises
  \<^verbatim>\<open>UnicodeDecodeError\<close>; that is not a \<^verbatim>\<open>json.JSONDecodeError\<close>, the handler
  \<^verbatim>\<open>except Exception\<close> takes it, and the answer is 500.  The store is unchanged.
\<close>

theorem upload_undecodable_bytes_500:
  "upload_layer loads e s ''layer.json'' nm descr [CHR 0xFF] =
     (Inl (HTTPException 500 ''Upload failed''), s)"
  by (simp add: upload_layer_def endswith_def upload_body_def decode_utf8_def)

end
